theory Spec2Isabelle
  imports Main
begin

section \<open>Python values and the host application\<close>

text \<open>
  Modelled from the spec: the wrapper classes \<open>TimelineItem\<close>, \<open>GalleryStill\<close> and
  \<open>MediaPoolItem\<close> are imported by \<open>timeline.py\<close> and \<open>media_storage.py\<close> from modules that
  are not part of the source at hand. The spec says each wrapper holds exactly one handle; the
  source constructs them from one value (\<open>TimelineItem(timeline_item=h)\<close>, \<open>GalleryStill(h)\<close>,
  \<open>MediaPoolItem(h)\<close>) and reads \<open>.timeline_item\<close> of a \<open>TimelineItem\<close>.
\<close>

datatype 'a TimelineItem = TimelineItem (timeline_item: 'a)
datatype 'a GalleryStill = GalleryStill (gallery_still: 'a)
datatype 'a MediaPoolItem = MediaPoolItem (media_pool_item: 'a)

text \<open>
  The Python values that travel between a caller, the wrappers and the host application.
  \<open>PHandle\<close> is an opaque object owned by the host; \<open>PPath s\<close> is a \<open>pathlib\<close> path whose
  string form is \<open>s\<close>; \<open>PTimeline h\<close> is a \<open>Timeline\<close> instance whose attribute \<open>timeline\<close>
  is \<open>h\<close>.
\<close>

datatype pyval =
    PNone
  | PBool bool
  | PInt int
  | PStr string
  | PPath string
  | PList "pyval list"
  | PDict "(pyval \<times> pyval) list"
  | PHandle nat
  | PTimelineItem "pyval TimelineItem"
  | PGalleryStill "pyval GalleryStill"
  | PMediaPoolItem "pyval MediaPoolItem"
  | PTimeline pyval

datatype exn = TypeError | AttributeError | HostError string

text \<open>
  One operation performed on an object of the host: the receiver, the operation's name and
  the positional arguments. The host application is outside the repository, so its answers are
  a parameter: \<open>H past c\<close> is what the host answers to the call \<open>c\<close> after the calls \<open>past\<close>
  (a value, or an exception raised by the host).
\<close>

type_synonym call = "pyval \<times> string \<times> pyval list"
type_synonym host = "call list \<Rightarrow> call \<Rightarrow> exn + pyval"

text \<open>
  The state a wrapper method runs in: the instance dictionary of the receiver \<open>self\<close> and the
  calls made to the host so far.
\<close>

record state =
  attrs :: "string \<rightharpoonup> pyval"
  calls :: "call list"

type_synonym 'a py = "state \<Rightarrow> (exn + 'a) \<times> state"

definition returnp :: "'a \<Rightarrow> 'a py" where
  "returnp v s = (Inr v, s)"

definition raisep :: "exn \<Rightarrow> 'a py" where
  "raisep e s = (Inl e, s)"

definition bindp :: "'a py \<Rightarrow> ('a \<Rightarrow> 'b py) \<Rightarrow> 'b py" where
  "bindp m f s = (case m s of (Inl e, s') \<Rightarrow> (Inl e, s') | (Inr v, s') \<Rightarrow> f v s')"

text \<open>\<open>h.name(*args)\<close> on an object of the host: the call is recorded and the host answers.\<close>

definition invoke :: "host \<Rightarrow> pyval \<Rightarrow> string \<Rightarrow> pyval list \<Rightarrow> pyval py" where
  "invoke H h name args s = (H (calls s) (h, name, args), s\<lparr>calls := calls s @ [(h, name, args)]\<rparr>)"

text \<open>
  \<open>str(v)\<close>: a string is its own string form and a path has the string form it was built from.
  The string form of every other object is decided by that object's class; it is the
  parameter \<open>d\<close>. An f-string field \<open>{v}\<close> without a format specification gives the same text.
\<close>

fun py_str :: "(pyval \<Rightarrow> string) \<Rightarrow> pyval \<Rightarrow> string" where
  "py_str d (PStr s) = s"
| "py_str d (PPath s) = s"
| "py_str d v = d v"

text \<open>
  \<open>for x in v\<close>: a list yields its elements, a string its characters, a dictionary its keys.
  \<open>None\<close>, booleans, integers, paths, and (here) opaque host objects and wrappers are not
  iterable: Python raises \<open>TypeError\<close>.
\<close>

fun py_iter :: "pyval \<Rightarrow> pyval list option" where
  "py_iter (PList xs) = Some xs"
| "py_iter (PStr s) = Some (map (\<lambda>c. PStr [c]) s)"
| "py_iter (PDict kvs) = Some (map fst kvs)"
| "py_iter v = None"

definition iterate :: "pyval \<Rightarrow> pyval list py" where
  "iterate v = (case py_iter v of Some xs \<Rightarrow> returnp xs | None \<Rightarrow> raisep TypeError)"

section \<open>\<open>timeline.py\<close>\<close>

record ImportOptions =
  sourceClipsPath :: string
  sourceClipsFolders :: string
  autoImportSourceClipsIntoMediaPool :: bool
  ignoreFileExtensionsWhenMatching :: bool
  linkToSourceCameraFiles :: bool
  useSizingInfo :: bool
  importMultiChannelAudioTracksAsLinkedGroups :: bool
  insertAdditionalTracks :: bool
  insertWithOffset :: string

text \<open>\<open>ImportOptions()\<close>: every field at its declared default.\<close>

definition ImportOptions_default :: ImportOptions where
  "ImportOptions_default =
     \<lparr>sourceClipsPath = '''', sourceClipsFolders = '''',
      autoImportSourceClipsIntoMediaPool = True, ignoreFileExtensionsWhenMatching = False,
      linkToSourceCameraFiles = False, useSizingInfo = False,
      importMultiChannelAudioTracksAsLinkedGroups = False, insertAdditionalTracks = True,
      insertWithOffset = ''00:00:00:00''\<rparr>"

text \<open>\<open>dataclasses.asdict\<close>: the fields in declaration order, each name with its value.\<close>

definition asdict :: "ImportOptions \<Rightarrow> pyval" where
  "asdict opts =
     PDict [(PStr ''sourceClipsPath'', PStr (sourceClipsPath opts)),
            (PStr ''sourceClipsFolders'', PStr (sourceClipsFolders opts)),
            (PStr ''autoImportSourceClipsIntoMediaPool'', PBool (autoImportSourceClipsIntoMediaPool opts)),
            (PStr ''ignoreFileExtensionsWhenMatching'', PBool (ignoreFileExtensionsWhenMatching opts)),
            (PStr ''linkToSourceCameraFiles'', PBool (linkToSourceCameraFiles opts)),
            (PStr ''useSizingInfo'', PBool (useSizingInfo opts)),
            (PStr ''importMultiChannelAudioTracksAsLinkedGroups'',
               PBool (importMultiChannelAudioTracksAsLinkedGroups opts)),
            (PStr ''insertAdditionalTracks'', PBool (insertAdditionalTracks opts)),
            (PStr ''insertWithOffset'', PStr (insertWithOffset opts))]"

datatype TrackType = AUDIO_TRACK | VIDEO_TRACK | SUBTITLE_TRACK

fun TrackType_value :: "TrackType \<Rightarrow> pyval" where
  "TrackType_value AUDIO_TRACK = PStr ''audio''"
| "TrackType_value VIDEO_TRACK = PStr ''video''"
| "TrackType_value SUBTITLE_TRACK = PStr ''subtitle''"

text \<open>
  The loop of \<open>timeline_item_class_list_transfer\<close>: \<open>acc\<close> is \<open>timeline_item_trans_list\<close>,
  which grows by one handle per wrapper visited.
\<close>

fun transfer_loop :: "pyval TimelineItem list \<Rightarrow> pyval list \<Rightarrow> pyval list" where
  "transfer_loop [] acc = acc"
| "transfer_loop (ti # rest) acc = transfer_loop rest (acc @ [timeline_item ti])"

definition timeline_item_class_list_transfer :: "pyval TimelineItem list \<Rightarrow> pyval list" where
  "timeline_item_class_list_transfer timeline_item_list = transfer_loop timeline_item_list []"

subsection \<open>class \<open>Timeline\<close>\<close>

text \<open>\<open>__init__\<close>: \<open>self.timeline = timeline\<close>.\<close>

definition Timeline_init :: "pyval \<Rightarrow> pyval py" where
  "Timeline_init timeline s = (Inr PNone, s\<lparr>attrs := (attrs s)(''timeline'' \<mapsto> timeline)\<rparr>)"

text \<open>Reading \<open>self.timeline\<close>: an instance without the attribute has no class-level fallback.\<close>

definition self_timeline :: "pyval py" where
  "self_timeline s =
     (case attrs s ''timeline'' of Some h \<Rightarrow> (Inr h, s) | None \<Rightarrow> (Inl AttributeError, s))"

text \<open>\<open>self.timeline.name(*args)\<close>.\<close>

definition timeline_op :: "host \<Rightarrow> string \<Rightarrow> pyval list \<Rightarrow> pyval py" where
  "timeline_op H name args = bindp self_timeline (\<lambda>t. invoke H t name args)"

text \<open>A parameter with a default value: \<open>None\<close> stands for an argument the caller left out.\<close>

definition default_arg :: "pyval \<Rightarrow> pyval option \<Rightarrow> pyval" where
  "default_arg dflt a = (case a of None \<Rightarrow> dflt | Some v \<Rightarrow> v)"

definition add_marker ::
  "host \<Rightarrow> pyval \<Rightarrow> pyval \<Rightarrow> pyval \<Rightarrow> pyval \<Rightarrow> pyval \<Rightarrow> pyval \<Rightarrow> pyval py" where
  "add_marker H frame_id color name note duration custom_data =
     timeline_op H ''AddMarker'' [frame_id, color, name, note, duration, custom_data]"

definition apply_grade_from_drx ::
  "host \<Rightarrow> (pyval \<Rightarrow> string) \<Rightarrow> pyval \<Rightarrow> pyval \<Rightarrow> pyval TimelineItem list \<Rightarrow> pyval py" where
  "apply_grade_from_drx H d path grade_mode timeline_items =
     timeline_op H ''ApplyGradeFromDRX''
       [PStr (py_str d path), grade_mode, PList (map PTimelineItem timeline_items)]"

definition create_compound_clip :: "host \<Rightarrow> pyval TimelineItem list \<Rightarrow> pyval \<Rightarrow> pyval py" where
  "create_compound_clip H timeline_items clipinfo =
     bindp (timeline_op H ''CreateCompoundClip''
              [PList (timeline_item_class_list_transfer timeline_items), clipinfo])
       (\<lambda>r. returnp (PTimelineItem (TimelineItem r)))"

definition create_fusion_clip :: "host \<Rightarrow> pyval TimelineItem list \<Rightarrow> pyval py" where
  "create_fusion_clip H timeline_items =
     bindp (timeline_op H ''CreateFusionClip''
              [PList (timeline_item_class_list_transfer timeline_items)])
       (\<lambda>r. returnp (PTimelineItem (TimelineItem r)))"

definition delete_marker_at_frame :: "host \<Rightarrow> pyval \<Rightarrow> pyval py" where
  "delete_marker_at_frame H frame_num = timeline_op H ''DeleteMarkerAtFrame'' [frame_num]"

definition delete_marker_by_custom_data :: "host \<Rightarrow> pyval \<Rightarrow> pyval py" where
  "delete_marker_by_custom_data H custom_data =
     timeline_op H ''DeleteMarkerByCustomData'' [custom_data]"

definition delete_marker_by_color :: "host \<Rightarrow> pyval \<Rightarrow> pyval py" where
  "delete_marker_by_color H color = timeline_op H ''DeleteMarkerByColor'' [color]"

definition duplicate_timeline :: "host \<Rightarrow> pyval \<Rightarrow> pyval py" where
  "duplicate_timeline H timeline_name =
     bindp (timeline_op H ''DuplicateTimeline'' [timeline_name]) (\<lambda>r. returnp (PTimeline r))"

text \<open>\<open>export\<close>; \<open>export_subtype\<close> defaults to \<open>None\<close>.\<close>

definition export_timeline :: "host \<Rightarrow> pyval \<Rightarrow> pyval \<Rightarrow> pyval option \<Rightarrow> pyval py" where
  "export_timeline H file_name export_type export_subtype =
     timeline_op H ''Export'' [file_name, export_type, default_arg PNone export_subtype]"

definition get_current_clip_thumbnail_image :: "host \<Rightarrow> pyval py" where
  "get_current_clip_thumbnail_image H = timeline_op H ''GetCurrentClipThumbnailImage'' []"

definition get_current_timecode :: "host \<Rightarrow> pyval py" where
  "get_current_timecode H = timeline_op H ''GetCurrentTimecode'' []"

definition get_current_video_item :: "host \<Rightarrow> pyval py" where
  "get_current_video_item H =
     bindp (timeline_op H ''GetCurrentVideoItem'' [])
       (\<lambda>r. returnp (PTimelineItem (TimelineItem r)))"

definition get_end_frame :: "host \<Rightarrow> pyval py" where
  "get_end_frame H = timeline_op H ''GetEndFrame'' []"

text \<open>
  The loop of \<open>get_item_list_in_track\<close>: \<open>acc\<close> is \<open>timeline_items_list\<close>; every element
  of the host's answer is appended inside a new \<open>TimelineItem\<close>.
\<close>

fun items_loop :: "pyval list \<Rightarrow> pyval list \<Rightarrow> pyval list" where
  "items_loop [] acc = acc"
| "items_loop (ti # rest) acc = items_loop rest (acc @ [PTimelineItem (TimelineItem ti)])"

definition get_item_list_in_track :: "host \<Rightarrow> TrackType \<Rightarrow> pyval \<Rightarrow> pyval py" where
  "get_item_list_in_track H track_type index =
     bindp (timeline_op H ''GetItemListInTrack'' [TrackType_value track_type, index])
       (\<lambda>r. bindp (iterate r) (\<lambda>xs. returnp (PList (items_loop xs []))))"

definition get_marker_by_custom_data :: "host \<Rightarrow> pyval \<Rightarrow> pyval py" where
  "get_marker_by_custom_data H custom_data = timeline_op H ''GetMarkerByCustomData'' [custom_data]"

definition get_marker_custom_data :: "host \<Rightarrow> pyval \<Rightarrow> pyval py" where
  "get_marker_custom_data H frame_id = timeline_op H ''GetMarkerCustomData'' [frame_id]"

definition get_markers :: "host \<Rightarrow> pyval py" where
  "get_markers H = timeline_op H ''GetMarkers'' []"

definition get_name :: "host \<Rightarrow> pyval py" where
  "get_name H = timeline_op H ''GetName'' []"

text \<open>\<open>__repr__\<close>: the f-string \<open>f'Timeline:f{self.get_name()}'\<close>.\<close>

definition Timeline_repr :: "host \<Rightarrow> (pyval \<Rightarrow> string) \<Rightarrow> pyval py" where
  "Timeline_repr H d = bindp (get_name H) (\<lambda>n. returnp (PStr (''Timeline:f'' @ py_str d n)))"

text \<open>\<open>get_setting\<close>; \<open>setting_name\<close> defaults to the empty string.\<close>

definition get_setting :: "host \<Rightarrow> pyval option \<Rightarrow> pyval py" where
  "get_setting H setting_name =
     timeline_op H ''GetSetting'' [default_arg (PStr []) setting_name]"

definition get_start_frame :: "host \<Rightarrow> pyval py" where
  "get_start_frame H = timeline_op H ''GetStartFrame'' []"

definition get_track_count :: "host \<Rightarrow> TrackType \<Rightarrow> pyval py" where
  "get_track_count H track_type = timeline_op H ''GetTrackCount'' [TrackType_value track_type]"

definition get_track_name :: "host \<Rightarrow> TrackType \<Rightarrow> pyval \<Rightarrow> pyval py" where
  "get_track_name H track_type track_index =
     timeline_op H ''GetTrackName'' [TrackType_value track_type, track_index]"

text \<open>
  The loop of \<open>grab_all_stills\<close>: \<open>acc\<close> is \<open>gallery_stills_list\<close>; the loop appends the
  loop variable \<open>gallery_still\<close> itself.
\<close>

fun stills_loop :: "pyval list \<Rightarrow> pyval list \<Rightarrow> pyval list" where
  "stills_loop [] acc = acc"
| "stills_loop (gs # rest) acc = stills_loop rest (acc @ [gs])"

definition grab_all_stills :: "host \<Rightarrow> pyval \<Rightarrow> pyval py" where
  "grab_all_stills H still_frame_source =
     bindp (timeline_op H ''GrabAllStills'' [still_frame_source])
       (\<lambda>r. bindp (iterate r) (\<lambda>xs. returnp (PList (stills_loop xs []))))"

definition grab_still :: "host \<Rightarrow> pyval py" where
  "grab_still H =
     bindp (timeline_op H ''GrabStill'' []) (\<lambda>r. returnp (PGalleryStill (GalleryStill r)))"

definition import_into_timeline :: "host \<Rightarrow> pyval \<Rightarrow> ImportOptions \<Rightarrow> pyval py" where
  "import_into_timeline H file_path import_options =
     timeline_op H ''ImportIntoTimeline'' [file_path, asdict import_options]"

definition insert_fusion_generator_into_timeline :: "host \<Rightarrow> pyval \<Rightarrow> pyval py" where
  "insert_fusion_generator_into_timeline H generator_name =
     bindp (timeline_op H ''InsertFusionGeneratorIntoTimeline'' [generator_name])
       (\<lambda>r. returnp (PTimelineItem (TimelineItem r)))"

definition insert_fusion_title_into_timeline :: "host \<Rightarrow> pyval \<Rightarrow> pyval py" where
  "insert_fusion_title_into_timeline H title_name =
     bindp (timeline_op H ''InsertFusionTitleIntoTimeline'' [title_name])
       (\<lambda>r. returnp (PTimelineItem (TimelineItem r)))"

definition insert_generator_into_timeline :: "host \<Rightarrow> pyval \<Rightarrow> pyval py" where
  "insert_generator_into_timeline H generator_name =
     bindp (timeline_op H ''InsertGeneratorIntoTimeline'' [generator_name])
       (\<lambda>r. returnp (PTimelineItem (TimelineItem r)))"

definition insert_oFX_generator_into_timeline :: "host \<Rightarrow> pyval \<Rightarrow> pyval py" where
  "insert_oFX_generator_into_timeline H generator_name =
     bindp (timeline_op H ''InsertOFXGeneratorIntoTimeline'' [generator_name])
       (\<lambda>r. returnp (PTimelineItem (TimelineItem r)))"

definition insert_title_into_timeline :: "host \<Rightarrow> pyval \<Rightarrow> pyval py" where
  "insert_title_into_timeline H title_name =
     bindp (timeline_op H ''InsertTitleIntoTimeline'' [title_name])
       (\<lambda>r. returnp (PTimelineItem (TimelineItem r)))"

definition set_current_timecode :: "host \<Rightarrow> pyval \<Rightarrow> pyval py" where
  "set_current_timecode H tiemcode = timeline_op H ''SetCurrentTimecode'' [tiemcode]"

definition set_name :: "host \<Rightarrow> pyval \<Rightarrow> pyval py" where
  "set_name H timeline_name = timeline_op H ''SetName'' [timeline_name]"

definition set_setting :: "host \<Rightarrow> pyval \<Rightarrow> pyval \<Rightarrow> pyval py" where
  "set_setting H setting_name setting_value =
     timeline_op H ''SetSetting'' [setting_name, setting_value]"

definition set_track_name :: "host \<Rightarrow> TrackType \<Rightarrow> pyval \<Rightarrow> pyval \<Rightarrow> pyval py" where
  "set_track_name H track_type track_index name =
     timeline_op H ''SetTrackName'' [TrackType_value track_type, track_index, name]"

definition update_marker_custom_data :: "host \<Rightarrow> pyval \<Rightarrow> pyval \<Rightarrow> pyval py" where
  "update_marker_custom_data H frame_id custom_data =
     timeline_op H ''UpdateMarkerCustomData'' [frame_id, custom_data]"

definition set_start_timecode :: "host \<Rightarrow> pyval \<Rightarrow> pyval py" where
  "set_start_timecode H timecode = timeline_op H ''SetStartTimecode'' [timecode]"

definition get_start_timecode :: "host \<Rightarrow> pyval py" where
  "get_start_timecode H = timeline_op H ''GetStartTimecode'' []"

definition insert_fusion_composition_into_timeline :: "host \<Rightarrow> pyval py" where
  "insert_fusion_composition_into_timeline H =
     bindp (timeline_op H ''InsertFusionCompositionIntoTimeline'' [])
       (\<lambda>r. returnp (PTimelineItem (TimelineItem r)))"

definition get_unique_id :: "host \<Rightarrow> pyval py" where
  "get_unique_id H = timeline_op H ''GetUniqueId'' []"

section \<open>\<open>media_storage.py\<close>\<close>

subsection \<open>class \<open>MediaStorage\<close>\<close>

text \<open>\<open>__init__\<close>: \<open>self.media_storage = _local_davinci.GetMediaStorage()\<close>.\<close>

definition MediaStorage_init :: "host \<Rightarrow> pyval \<Rightarrow> pyval py" where
  "MediaStorage_init H local_davinci =
     bindp (invoke H local_davinci ''GetMediaStorage'' [])
       (\<lambda>r s. (Inr PNone, s\<lparr>attrs := (attrs s)(''media_storage'' \<mapsto> r)\<rparr>))"

text \<open>
  Reading \<open>self.media_storage\<close>: the class body sets \<open>media_storage = None\<close>, which an
  instance without the attribute falls back to.
\<close>

definition self_media_storage :: "pyval py" where
  "self_media_storage s =
     (case attrs s ''media_storage'' of Some h \<Rightarrow> (Inr h, s) | None \<Rightarrow> (Inr PNone, s))"

text \<open>\<open>self.media_storage.name(*args)\<close>.\<close>

definition media_storage_op :: "host \<Rightarrow> string \<Rightarrow> pyval list \<Rightarrow> pyval py" where
  "media_storage_op H name args = bindp self_media_storage (\<lambda>m. invoke H m name args)"

text \<open>\<open>add_clip_mattes_to_media_pool\<close>; \<open>stero_eye\<close> defaults to \<open>None\<close>.\<close>

definition add_clip_mattes_to_media_pool ::
  "host \<Rightarrow> pyval MediaPoolItem \<Rightarrow> pyval \<Rightarrow> pyval option \<Rightarrow> pyval py" where
  "add_clip_mattes_to_media_pool H mpi paths stero_eye =
     media_storage_op H ''AddClipMattesToMediaPool''
       [PMediaPoolItem mpi, paths, default_arg PNone stero_eye]"

text \<open>The two list comprehensions build one \<open>MediaPoolItem\<close> per element of the answer.\<close>

definition add_item_list_to_meida_pool :: "host \<Rightarrow> pyval \<Rightarrow> pyval py" where
  "add_item_list_to_meida_pool H item_path_list =
     bindp (media_storage_op H ''AddItemListToMediaPool'' [item_path_list])
       (\<lambda>r. bindp (iterate r)
          (\<lambda>xs. returnp (PList (map (\<lambda>x. PMediaPoolItem (MediaPoolItem x)) xs))))"

definition add_timeline_mattes_to_media_pool :: "host \<Rightarrow> pyval \<Rightarrow> pyval py" where
  "add_timeline_mattes_to_media_pool H paths =
     bindp (media_storage_op H ''AddTimelineMattesToMediaPool'' [paths])
       (\<lambda>r. bindp (iterate r)
          (\<lambda>xs. returnp (PList (map (\<lambda>x. PMediaPoolItem (MediaPoolItem x)) xs))))"

definition get_file_list :: "host \<Rightarrow> (pyval \<Rightarrow> string) \<Rightarrow> pyval \<Rightarrow> pyval py" where
  "get_file_list H d folder_path =
     media_storage_op H ''GetFileList'' [PStr (py_str d folder_path)]"

definition get_mounted_volume_list :: "host \<Rightarrow> pyval py" where
  "get_mounted_volume_list H = media_storage_op H ''GetMountedVolumeList'' []"

definition get_sub_folder_list :: "host \<Rightarrow> (pyval \<Rightarrow> string) \<Rightarrow> pyval \<Rightarrow> pyval py" where
  "get_sub_folder_list H d folder_path =
     media_storage_op H ''GetSubFolderList'' [PStr (py_str d folder_path)]"

definition reveal_in_storage :: "host \<Rightarrow> (pyval \<Rightarrow> string) \<Rightarrow> pyval \<Rightarrow> pyval py" where
  "reveal_in_storage H d path = media_storage_op H ''RevealInStorage'' [PStr (py_str d path)]"

section \<open>Method invocations\<close>

text \<open>
  A method invocation on a \<open>Timeline\<close>: the method and its arguments. \<open>Timeline_call\<close> is
  the dispatch \<open>self.method(arguments)\<close>; it lets a statement range over every method.
\<close>

datatype Timeline_invocation =
    Repr
  | Add_marker pyval pyval pyval pyval pyval pyval
  | Apply_grade_from_drx pyval pyval "pyval TimelineItem list"
  | Create_compound_clip "pyval TimelineItem list" pyval
  | Create_fusion_clip "pyval TimelineItem list"
  | Delete_marker_at_frame pyval
  | Delete_marker_by_custom_data pyval
  | Delete_marker_by_color pyval
  | Duplicate_timeline pyval
  | Export pyval pyval "pyval option"
  | Get_current_clip_thumbnail_image
  | Get_current_timecode
  | Get_current_video_item
  | Get_end_frame
  | Get_item_list_in_track TrackType pyval
  | Get_marker_by_custom_data pyval
  | Get_marker_custom_data pyval
  | Get_markers
  | Get_name
  | Get_setting "pyval option"
  | Get_start_frame
  | Get_track_count TrackType
  | Get_track_name TrackType pyval
  | Grab_all_stills pyval
  | Grab_still
  | Import_into_timeline pyval ImportOptions
  | Insert_fusion_generator_into_timeline pyval
  | Insert_fusion_title_into_timeline pyval
  | Insert_generator_into_timeline pyval
  | Insert_oFX_generator_into_timeline pyval
  | Insert_title_into_timeline pyval
  | Set_current_timecode pyval
  | Set_name pyval
  | Set_setting pyval pyval
  | Set_track_name TrackType pyval pyval
  | Update_marker_custom_data pyval pyval
  | Set_start_timecode pyval
  | Get_start_timecode
  | Insert_fusion_composition_into_timeline
  | Get_unique_id

fun Timeline_call :: "host \<Rightarrow> (pyval \<Rightarrow> string) \<Rightarrow> Timeline_invocation \<Rightarrow> pyval py" where
  "Timeline_call H d Repr = Timeline_repr H d"
| "Timeline_call H d (Add_marker a b c e f g) = add_marker H a b c e f g"
| "Timeline_call H d (Apply_grade_from_drx p g tis) = apply_grade_from_drx H d p g tis"
| "Timeline_call H d (Create_compound_clip tis ci) = create_compound_clip H tis ci"
| "Timeline_call H d (Create_fusion_clip tis) = create_fusion_clip H tis"
| "Timeline_call H d (Delete_marker_at_frame a) = delete_marker_at_frame H a"
| "Timeline_call H d (Delete_marker_by_custom_data a) = delete_marker_by_custom_data H a"
| "Timeline_call H d (Delete_marker_by_color a) = delete_marker_by_color H a"
| "Timeline_call H d (Duplicate_timeline a) = duplicate_timeline H a"
| "Timeline_call H d (Export a b c) = export_timeline H a b c"
| "Timeline_call H d Get_current_clip_thumbnail_image = get_current_clip_thumbnail_image H"
| "Timeline_call H d Get_current_timecode = get_current_timecode H"
| "Timeline_call H d Get_current_video_item = get_current_video_item H"
| "Timeline_call H d Get_end_frame = get_end_frame H"
| "Timeline_call H d (Get_item_list_in_track tt i) = get_item_list_in_track H tt i"
| "Timeline_call H d (Get_marker_by_custom_data a) = get_marker_by_custom_data H a"
| "Timeline_call H d (Get_marker_custom_data a) = get_marker_custom_data H a"
| "Timeline_call H d Get_markers = get_markers H"
| "Timeline_call H d Get_name = get_name H"
| "Timeline_call H d (Get_setting a) = get_setting H a"
| "Timeline_call H d Get_start_frame = get_start_frame H"
| "Timeline_call H d (Get_track_count tt) = get_track_count H tt"
| "Timeline_call H d (Get_track_name tt i) = get_track_name H tt i"
| "Timeline_call H d (Grab_all_stills a) = grab_all_stills H a"
| "Timeline_call H d Grab_still = grab_still H"
| "Timeline_call H d (Import_into_timeline p io) = import_into_timeline H p io"
| "Timeline_call H d (Insert_fusion_generator_into_timeline a) =
     insert_fusion_generator_into_timeline H a"
| "Timeline_call H d (Insert_fusion_title_into_timeline a) = insert_fusion_title_into_timeline H a"
| "Timeline_call H d (Insert_generator_into_timeline a) = insert_generator_into_timeline H a"
| "Timeline_call H d (Insert_oFX_generator_into_timeline a) =
     insert_oFX_generator_into_timeline H a"
| "Timeline_call H d (Insert_title_into_timeline a) = insert_title_into_timeline H a"
| "Timeline_call H d (Set_current_timecode a) = set_current_timecode H a"
| "Timeline_call H d (Set_name a) = set_name H a"
| "Timeline_call H d (Set_setting a b) = set_setting H a b"
| "Timeline_call H d (Set_track_name tt i n) = set_track_name H tt i n"
| "Timeline_call H d (Update_marker_custom_data a b) = update_marker_custom_data H a b"
| "Timeline_call H d (Set_start_timecode a) = set_start_timecode H a"
| "Timeline_call H d Get_start_timecode = get_start_timecode H"
| "Timeline_call H d Insert_fusion_composition_into_timeline =
     insert_fusion_composition_into_timeline H"
| "Timeline_call H d Get_unique_id = get_unique_id H"

text \<open>The same for a \<open>MediaStorage\<close>.\<close>

datatype MediaStorage_invocation =
    Add_clip_mattes_to_media_pool "pyval MediaPoolItem" pyval "pyval option"
  | Add_item_list_to_meida_pool pyval
  | Add_timeline_mattes_to_media_pool pyval
  | Get_file_list pyval
  | Get_mounted_volume_list
  | Get_sub_folder_list pyval
  | Reveal_in_storage pyval

fun MediaStorage_call ::
  "host \<Rightarrow> (pyval \<Rightarrow> string) \<Rightarrow> MediaStorage_invocation \<Rightarrow> pyval py" where
  "MediaStorage_call H d (Add_clip_mattes_to_media_pool m p e) =
     add_clip_mattes_to_media_pool H m p e"
| "MediaStorage_call H d (Add_item_list_to_meida_pool a) = add_item_list_to_meida_pool H a"
| "MediaStorage_call H d (Add_timeline_mattes_to_media_pool a) =
     add_timeline_mattes_to_media_pool H a"
| "MediaStorage_call H d (Get_file_list a) = get_file_list H d a"
| "MediaStorage_call H d Get_mounted_volume_list = get_mounted_volume_list H"
| "MediaStorage_call H d (Get_sub_folder_list a) = get_sub_folder_list H d a"
| "MediaStorage_call H d (Reveal_in_storage a) = reveal_in_storage H d a"

text \<open>
  The methods whose body loops over the value the host returned (a \<open>for\<close> statement or a
  list comprehension).
\<close>

fun Timeline_iterates :: "Timeline_invocation \<Rightarrow> bool" where
  "Timeline_iterates (Get_item_list_in_track tt i) = True"
| "Timeline_iterates (Grab_all_stills a) = True"
| "Timeline_iterates other = False"

fun MediaStorage_iterates :: "MediaStorage_invocation \<Rightarrow> bool" where
  "MediaStorage_iterates (Add_item_list_to_meida_pool a) = True"
| "MediaStorage_iterates (Add_timeline_mattes_to_media_pool a) = True"
| "MediaStorage_iterates other = False"

text \<open>What the host answered to the call made between the states \<open>s\<close> and \<open>s'\<close>.\<close>

definition answer :: "host \<Rightarrow> state \<Rightarrow> state \<Rightarrow> exn + pyval" where
  "answer H s s' = H (calls s) (last (calls s'))"

text \<open>
  The operation of the host's scripting interface that each method stands for: the method's
  name in the host's naming convention.
\<close>

primrec Timeline_operation :: "Timeline_invocation \<Rightarrow> string" where
  "Timeline_operation Repr = ''GetName''"
| "Timeline_operation (Add_marker a b c e f g) = ''AddMarker''"
| "Timeline_operation (Apply_grade_from_drx p g tis) = ''ApplyGradeFromDRX''"
| "Timeline_operation (Create_compound_clip tis ci) = ''CreateCompoundClip''"
| "Timeline_operation (Create_fusion_clip tis) = ''CreateFusionClip''"
| "Timeline_operation (Delete_marker_at_frame a) = ''DeleteMarkerAtFrame''"
| "Timeline_operation (Delete_marker_by_custom_data a) = ''DeleteMarkerByCustomData''"
| "Timeline_operation (Delete_marker_by_color a) = ''DeleteMarkerByColor''"
| "Timeline_operation (Duplicate_timeline a) = ''DuplicateTimeline''"
| "Timeline_operation (Export a b c) = ''Export''"
| "Timeline_operation Get_current_clip_thumbnail_image = ''GetCurrentClipThumbnailImage''"
| "Timeline_operation Get_current_timecode = ''GetCurrentTimecode''"
| "Timeline_operation Get_current_video_item = ''GetCurrentVideoItem''"
| "Timeline_operation Get_end_frame = ''GetEndFrame''"
| "Timeline_operation (Get_item_list_in_track tt i) = ''GetItemListInTrack''"
| "Timeline_operation (Get_marker_by_custom_data a) = ''GetMarkerByCustomData''"
| "Timeline_operation (Get_marker_custom_data a) = ''GetMarkerCustomData''"
| "Timeline_operation Get_markers = ''GetMarkers''"
| "Timeline_operation Get_name = ''GetName''"
| "Timeline_operation (Get_setting a) = ''GetSetting''"
| "Timeline_operation Get_start_frame = ''GetStartFrame''"
| "Timeline_operation (Get_track_count tt) = ''GetTrackCount''"
| "Timeline_operation (Get_track_name tt i) = ''GetTrackName''"
| "Timeline_operation (Grab_all_stills a) = ''GrabAllStills''"
| "Timeline_operation Grab_still = ''GrabStill''"
| "Timeline_operation (Import_into_timeline p io) = ''ImportIntoTimeline''"
| "Timeline_operation (Insert_fusion_generator_into_timeline a) =
     ''InsertFusionGeneratorIntoTimeline''"
| "Timeline_operation (Insert_fusion_title_into_timeline a) = ''InsertFusionTitleIntoTimeline''"
| "Timeline_operation (Insert_generator_into_timeline a) = ''InsertGeneratorIntoTimeline''"
| "Timeline_operation (Insert_oFX_generator_into_timeline a) = ''InsertOFXGeneratorIntoTimeline''"
| "Timeline_operation (Insert_title_into_timeline a) = ''InsertTitleIntoTimeline''"
| "Timeline_operation (Set_current_timecode a) = ''SetCurrentTimecode''"
| "Timeline_operation (Set_name a) = ''SetName''"
| "Timeline_operation (Set_setting a b) = ''SetSetting''"
| "Timeline_operation (Set_track_name tt i n) = ''SetTrackName''"
| "Timeline_operation (Update_marker_custom_data a b) = ''UpdateMarkerCustomData''"
| "Timeline_operation (Set_start_timecode a) = ''SetStartTimecode''"
| "Timeline_operation Get_start_timecode = ''GetStartTimecode''"
| "Timeline_operation Insert_fusion_composition_into_timeline =
     ''InsertFusionCompositionIntoTimeline''"
| "Timeline_operation Get_unique_id = ''GetUniqueId''"

primrec MediaStorage_operation :: "MediaStorage_invocation \<Rightarrow> string" where
  "MediaStorage_operation (Add_clip_mattes_to_media_pool m p e) = ''AddClipMattesToMediaPool''"
| "MediaStorage_operation (Add_item_list_to_meida_pool a) = ''AddItemListToMediaPool''"
| "MediaStorage_operation (Add_timeline_mattes_to_media_pool a) = ''AddTimelineMattesToMediaPool''"
| "MediaStorage_operation (Get_file_list a) = ''GetFileList''"
| "MediaStorage_operation Get_mounted_volume_list = ''GetMountedVolumeList''"
| "MediaStorage_operation (Get_sub_folder_list a) = ''GetSubFolderList''"
| "MediaStorage_operation (Reveal_in_storage a) = ''RevealInStorage''"

text \<open>
  The arguments each method hands to the host, as the source writes them: every argument of
  the method, in the order of the call, none dropped and none replaced. A path goes through
  \<open>str\<close> where the source applies it, a \<open>TrackType\<close> goes as its \<open>value\<close>, an
  \<open>ImportOptions\<close> as its dictionary, an omitted argument as its default, and a list of
  \<open>TimelineItem\<close> wrappers goes whole: element by element as the handles held
  (\<open>create_compound_clip\<close>, \<open>create_fusion_clip\<close>) or as the wrappers themselves
  (\<open>apply_grade_from_drx\<close>).
\<close>

primrec Timeline_arguments :: "(pyval \<Rightarrow> string) \<Rightarrow> Timeline_invocation \<Rightarrow> pyval list" where
  "Timeline_arguments d Repr = []"
| "Timeline_arguments d (Add_marker a b c e f g) = [a, b, c, e, f, g]"
| "Timeline_arguments d (Apply_grade_from_drx p g tis) =
     [PStr (py_str d p), g, PList (map PTimelineItem tis)]"
| "Timeline_arguments d (Create_compound_clip tis ci) = [PList (map timeline_item tis), ci]"
| "Timeline_arguments d (Create_fusion_clip tis) = [PList (map timeline_item tis)]"
| "Timeline_arguments d (Delete_marker_at_frame a) = [a]"
| "Timeline_arguments d (Delete_marker_by_custom_data a) = [a]"
| "Timeline_arguments d (Delete_marker_by_color a) = [a]"
| "Timeline_arguments d (Duplicate_timeline a) = [a]"
| "Timeline_arguments d (Export a b c) = [a, b, (case c of None \<Rightarrow> PNone | Some v \<Rightarrow> v)]"
| "Timeline_arguments d Get_current_clip_thumbnail_image = []"
| "Timeline_arguments d Get_current_timecode = []"
| "Timeline_arguments d Get_current_video_item = []"
| "Timeline_arguments d Get_end_frame = []"
| "Timeline_arguments d (Get_item_list_in_track tt i) = [TrackType_value tt, i]"
| "Timeline_arguments d (Get_marker_by_custom_data a) = [a]"
| "Timeline_arguments d (Get_marker_custom_data a) = [a]"
| "Timeline_arguments d Get_markers = []"
| "Timeline_arguments d Get_name = []"
| "Timeline_arguments d (Get_setting a) = [(case a of None \<Rightarrow> PStr [] | Some v \<Rightarrow> v)]"
| "Timeline_arguments d Get_start_frame = []"
| "Timeline_arguments d (Get_track_count tt) = [TrackType_value tt]"
| "Timeline_arguments d (Get_track_name tt i) = [TrackType_value tt, i]"
| "Timeline_arguments d (Grab_all_stills a) = [a]"
| "Timeline_arguments d Grab_still = []"
| "Timeline_arguments d (Import_into_timeline p io) = [p, asdict io]"
| "Timeline_arguments d (Insert_fusion_generator_into_timeline a) = [a]"
| "Timeline_arguments d (Insert_fusion_title_into_timeline a) = [a]"
| "Timeline_arguments d (Insert_generator_into_timeline a) = [a]"
| "Timeline_arguments d (Insert_oFX_generator_into_timeline a) = [a]"
| "Timeline_arguments d (Insert_title_into_timeline a) = [a]"
| "Timeline_arguments d (Set_current_timecode a) = [a]"
| "Timeline_arguments d (Set_name a) = [a]"
| "Timeline_arguments d (Set_setting a b) = [a, b]"
| "Timeline_arguments d (Set_track_name tt i n) = [TrackType_value tt, i, n]"
| "Timeline_arguments d (Update_marker_custom_data a b) = [a, b]"
| "Timeline_arguments d (Set_start_timecode a) = [a]"
| "Timeline_arguments d Get_start_timecode = []"
| "Timeline_arguments d Insert_fusion_composition_into_timeline = []"
| "Timeline_arguments d Get_unique_id = []"

primrec MediaStorage_arguments ::
  "(pyval \<Rightarrow> string) \<Rightarrow> MediaStorage_invocation \<Rightarrow> pyval list" where
  "MediaStorage_arguments d (Add_clip_mattes_to_media_pool m p e) =
     [PMediaPoolItem m, p, (case e of None \<Rightarrow> PNone | Some v \<Rightarrow> v)]"
| "MediaStorage_arguments d (Add_item_list_to_meida_pool a) = [a]"
| "MediaStorage_arguments d (Add_timeline_mattes_to_media_pool a) = [a]"
| "MediaStorage_arguments d (Get_file_list a) = [PStr (py_str d a)]"
| "MediaStorage_arguments d Get_mounted_volume_list = []"
| "MediaStorage_arguments d (Get_sub_folder_list a) = [PStr (py_str d a)]"
| "MediaStorage_arguments d (Reveal_in_storage a) = [PStr (py_str d a)]"

section \<open>Concrete hosts and states\<close>

text \<open>
  A freshly created instance (no attribute yet, no call made), a \<open>Timeline\<close> holding the
  handle \<open>PHandle 0\<close> and a \<open>MediaStorage\<close> holding \<open>PHandle 1\<close>.
\<close>

definition fresh :: state where
  "fresh = \<lparr>attrs = Map.empty, calls = []\<rparr>"

definition a_timeline :: state where
  "a_timeline = \<lparr>attrs = [''timeline'' \<mapsto> PHandle 0], calls = []\<rparr>"

definition a_media_storage :: state where
  "a_media_storage = \<lparr>attrs = [''media_storage'' \<mapsto> PHandle 1], calls = []\<rparr>"

text \<open>
  Hosts that answer every call alike: with \<open>None\<close>, with \<open>True\<close>, with a list of two handles,
  with the name \<open>Edit 1\<close>, and by raising.
\<close>

definition host_none :: host where
  "host_none past c = Inr PNone"

definition host_true :: host where
  "host_true past c = Inr (PBool True)"

definition host_two :: host where
  "host_two past c = Inr (PList [PHandle 7, PHandle 8])"

definition host_name :: host where
  "host_name past c = Inr (PStr ''Edit 1'')"

definition host_raises :: host where
  "host_raises past c = Inl (HostError ''no project'')"

text \<open>A host that counts: it answers each call with the number of calls made before it.\<close>

definition host_counts :: host where
  "host_counts past c = Inr (PInt (int (length past)))"

text \<open>The string form of objects other than strings and paths, for the examples.\<close>

definition str_other :: "pyval \<Rightarrow> string" where
  "str_other v = ''<object>''"

section \<open>Running a delegated call\<close>

lemma timeline_op_run:
  "attrs s ''timeline'' = Some t \<Longrightarrow>
   timeline_op H name args s =
     (H (calls s) (t, name, args), s\<lparr>calls := calls s @ [(t, name, args)]\<rparr>)"
  by (simp add: timeline_op_def bindp_def self_timeline_def invoke_def)

lemma media_storage_op_run:
  "attrs s ''media_storage'' = Some m \<Longrightarrow>
   media_storage_op H name args s =
     (H (calls s) (m, name, args), s\<lparr>calls := calls s @ [(m, name, args)]\<rparr>)"
  by (simp add: media_storage_op_def bindp_def self_media_storage_def invoke_def)

lemma bindp_returnp:
  "bindp m (\<lambda>r. returnp (f r)) s =
     (case m s of (Inl e, s') \<Rightarrow> (Inl e, s') | (Inr v, s') \<Rightarrow> (Inr (f v), s'))"
  by (simp add: bindp_def returnp_def split: prod.splits sum.splits)

lemma bindp_iterate:
  "bindp m (\<lambda>r. bindp (iterate r) (\<lambda>xs. returnp (f xs))) s =
     (case m s of
        (Inl e, s') \<Rightarrow> (Inl e, s')
      | (Inr v, s') \<Rightarrow> (case py_iter v of None \<Rightarrow> (Inl TypeError, s') | Some xs \<Rightarrow> (Inr (f xs), s')))"
  by (simp add: bindp_def returnp_def raisep_def iterate_def split: prod.splits sum.splits option.splits)

lemma transfer_loop_map: "transfer_loop xs acc = acc @ map timeline_item xs"
  by (induction xs arbitrary: acc) simp_all

lemma items_loop_map: "items_loop xs acc = acc @ map (\<lambda>x. PTimelineItem (TimelineItem x)) xs"
  by (induction xs arbitrary: acc) simp_all

lemma stills_loop_id: "stills_loop xs acc = acc @ xs"
  by (induction xs arbitrary: acc) simp_all

lemma transfer_map: "timeline_item_class_list_transfer xs = map timeline_item xs"
  by (simp add: timeline_item_class_list_transfer_def transfer_loop_map)

lemmas Timeline_methods =
  Timeline_repr_def add_marker_def apply_grade_from_drx_def create_compound_clip_def
  create_fusion_clip_def delete_marker_at_frame_def delete_marker_by_custom_data_def
  delete_marker_by_color_def duplicate_timeline_def export_timeline_def
  get_current_clip_thumbnail_image_def get_current_timecode_def get_current_video_item_def
  get_end_frame_def get_item_list_in_track_def get_marker_by_custom_data_def
  get_marker_custom_data_def get_markers_def get_name_def get_setting_def get_start_frame_def
  get_track_count_def get_track_name_def grab_all_stills_def grab_still_def
  import_into_timeline_def insert_fusion_generator_into_timeline_def
  insert_fusion_title_into_timeline_def insert_generator_into_timeline_def
  insert_oFX_generator_into_timeline_def insert_title_into_timeline_def
  set_current_timecode_def set_name_def set_setting_def set_track_name_def
  update_marker_custom_data_def set_start_timecode_def get_start_timecode_def
  insert_fusion_composition_into_timeline_def get_unique_id_def

lemmas MediaStorage_methods =
  add_clip_mattes_to_media_pool_def add_item_list_to_meida_pool_def
  add_timeline_mattes_to_media_pool_def get_file_list_def get_mounted_volume_list_def
  get_sub_folder_list_def reveal_in_storage_def

text \<open>
  Every \<open>Timeline\<close> method, run on an instance that holds \<open>t\<close>: one call on \<open>t\<close> is added
  to the calls, the attributes stay, and the outcome is the host's answer, passed on, wrapped,
  or looped over.
\<close>

lemma Timeline_call_run:
  assumes "attrs s ''timeline'' = Some t"
  shows "calls (snd (Timeline_call H d m s)) = calls s @ [last (calls (snd (Timeline_call H d m s)))]"
    and "fst (last (calls (snd (Timeline_call H d m s)))) = t"
    and "attrs (snd (Timeline_call H d m s)) = attrs s"
    and "(case answer H s (snd (Timeline_call H d m s)) of
        Inl e \<Rightarrow> fst (Timeline_call H d m s) = Inl e
      | Inr v \<Rightarrow>
          if Timeline_iterates m \<and> py_iter v = None
          then fst (Timeline_call H d m s) = Inl TypeError
          else \<exists>r. fst (Timeline_call H d m s) = Inr r)"
  using assms
  by (cases m;
      simp add: Timeline_methods timeline_op_run bindp_returnp bindp_iterate answer_def
        split: sum.splits option.splits)+

lemma MediaStorage_call_run:
  assumes "attrs s ''media_storage'' = Some h"
  shows "calls (snd (MediaStorage_call H d m s)) =
           calls s @ [last (calls (snd (MediaStorage_call H d m s)))]"
    and "fst (last (calls (snd (MediaStorage_call H d m s)))) = h"
    and "attrs (snd (MediaStorage_call H d m s)) = attrs s"
    and "(case answer H s (snd (MediaStorage_call H d m s)) of
        Inl e \<Rightarrow> fst (MediaStorage_call H d m s) = Inl e
      | Inr v \<Rightarrow>
          if MediaStorage_iterates m \<and> py_iter v = None
          then fst (MediaStorage_call H d m s) = Inl TypeError
          else \<exists>r. fst (MediaStorage_call H d m s) = Inr r)"
  using assms
  by (cases m;
      simp add: MediaStorage_methods media_storage_op_run bindp_returnp bindp_iterate answer_def
        split: sum.splits option.splits)+

lemma timeline_op_attrs: "attrs (snd (timeline_op H name args s)) = attrs s"
  by (simp add: timeline_op_def bindp_def self_timeline_def invoke_def split: option.splits)

lemma media_storage_op_attrs: "attrs (snd (media_storage_op H name args s)) = attrs s"
  by (simp add: media_storage_op_def bindp_def self_media_storage_def invoke_def
      split: option.splits)

lemma bindp_returnp_attrs:
  "attrs (snd (bindp m (\<lambda>r. returnp (f r)) s)) = attrs (snd (m s))"
  by (simp add: bindp_returnp split: prod.splits sum.splits)

lemma bindp_iterate_attrs:
  "attrs (snd (bindp m (\<lambda>r. bindp (iterate r) (\<lambda>xs. returnp (f xs))) s)) = attrs (snd (m s))"
  by (simp add: bindp_iterate split: prod.splits sum.splits option.splits)

lemma Timeline_call_attrs: "attrs (snd (Timeline_call H d m s)) = attrs s"
  by (cases m;
      simp add: Timeline_methods timeline_op_attrs bindp_returnp_attrs bindp_iterate_attrs)

lemma MediaStorage_call_attrs: "attrs (snd (MediaStorage_call H d m s)) = attrs s"
  by (cases m;
      simp add: MediaStorage_methods media_storage_op_attrs bindp_returnp_attrs
        bindp_iterate_attrs)

lemma Timeline_call_operation:
  assumes "attrs s ''timeline'' = Some t"
  shows "fst (snd (last (calls (snd (Timeline_call H d m s))))) = Timeline_operation m"
  using assms
  by (cases m; simp add: Timeline_methods timeline_op_run bindp_returnp bindp_iterate
        split: sum.splits option.splits)

lemma MediaStorage_call_operation:
  assumes "attrs s ''media_storage'' = Some h"
  shows "fst (snd (last (calls (snd (MediaStorage_call H d m s))))) = MediaStorage_operation m"
  using assms
  by (cases m; simp add: MediaStorage_methods media_storage_op_run bindp_returnp bindp_iterate
        split: sum.splits option.splits)

text \<open>The state after a method: the one call, with its operation and arguments, is added.\<close>

lemma Timeline_call_forwards:
  assumes "attrs s ''timeline'' = Some t"
  shows "snd (Timeline_call H d m s) =
           s\<lparr>calls := calls s @ [(t, Timeline_operation m, Timeline_arguments d m)]\<rparr>"
  using assms
  by (cases m;
      simp add: Timeline_methods timeline_op_run bindp_returnp bindp_iterate transfer_map
        default_arg_def split: sum.splits option.splits)

lemma MediaStorage_call_forwards:
  assumes "attrs s ''media_storage'' = Some h"
  shows "snd (MediaStorage_call H d m s) =
           s\<lparr>calls := calls s @ [(h, MediaStorage_operation m, MediaStorage_arguments d m)]\<rparr>"
  using assms
  by (cases m;
      simp add: MediaStorage_methods media_storage_op_run bindp_returnp bindp_iterate
        default_arg_def split: sum.splits option.splits)

section \<open>Claims\<close>

text \<open>
  C9. For every list of \<open>TimelineItem\<close> wrappers, \<open>timeline_item_class_list_transfer\<close> returns
  a list of the same length whose i-th element is the handle held by the i-th wrapper; for the
  empty list it returns the empty list.
\<close>

theorem transfer_handles_in_order:
  "length (timeline_item_class_list_transfer xs) = length xs \<and>
   (\<forall>i < length xs. timeline_item_class_list_transfer xs ! i = timeline_item (xs ! i)) \<and>
   timeline_item_class_list_transfer [] = []"
  by (simp add: transfer_map)

theorem transfer_handles_in_order_witness:
  "length (timeline_item_class_list_transfer [TimelineItem (PHandle 3), TimelineItem (PHandle 4)]) = 2 \<and>
   timeline_item_class_list_transfer [TimelineItem (PHandle 3), TimelineItem (PHandle 4)] ! 1 = PHandle 4"
  using transfer_handles_in_order [of "[TimelineItem (PHandle 3), TimelineItem (PHandle 4)]"]
  by simp

text \<open>
  C10. When the handle's \<open>GetName\<close> returns the string \<open>n\<close>, \<open>Timeline.__repr__\<close> returns
  \<open>Timeline:f\<close> followed by \<open>n\<close>, with the letter f between the colon and the name, and not
  \<open>Timeline:\<close> followed by \<open>n\<close>.
\<close>

theorem repr_keeps_letter_f:
  assumes "attrs s ''timeline'' = Some t"
    and "H (calls s) (t, ''GetName'', []) = Inr (PStr n)"
  shows "fst (Timeline_repr H d s) = Inr (PStr (''Timeline:f'' @ n)) \<and>
         fst (Timeline_repr H d s) \<noteq> Inr (PStr (''Timeline:'' @ n))"
  using assms by (simp add: Timeline_repr_def get_name_def timeline_op_run bindp_returnp)

theorem repr_keeps_letter_f_witness:
  "fst (Timeline_repr host_name str_other a_timeline) = Inr (PStr ''Timeline:fEdit 1'')"
  using repr_keeps_letter_f [of a_timeline "PHandle 0" host_name "''Edit 1''" str_other]
  by (simp add: a_timeline_def host_name_def)

text \<open>
  C8. For every \<open>ImportOptions\<close> value, the second argument that \<open>import_into_timeline\<close> hands
  to \<open>ImportIntoTimeline\<close> is a dictionary of exactly the nine fields with their current
  values; for a default \<open>ImportOptions()\<close> it is the dictionary of the nine defaults.
\<close>

theorem import_options_forwarded_as_dict:
  assumes "attrs s ''timeline'' = Some t"
  shows "calls (snd (import_into_timeline H file_path opts s)) =
     calls s @
       [(t, ''ImportIntoTimeline'',
         [file_path,
          PDict [(PStr ''sourceClipsPath'', PStr (sourceClipsPath opts)),
                 (PStr ''sourceClipsFolders'', PStr (sourceClipsFolders opts)),
                 (PStr ''autoImportSourceClipsIntoMediaPool'',
                    PBool (autoImportSourceClipsIntoMediaPool opts)),
                 (PStr ''ignoreFileExtensionsWhenMatching'',
                    PBool (ignoreFileExtensionsWhenMatching opts)),
                 (PStr ''linkToSourceCameraFiles'', PBool (linkToSourceCameraFiles opts)),
                 (PStr ''useSizingInfo'', PBool (useSizingInfo opts)),
                 (PStr ''importMultiChannelAudioTracksAsLinkedGroups'',
                    PBool (importMultiChannelAudioTracksAsLinkedGroups opts)),
                 (PStr ''insertAdditionalTracks'', PBool (insertAdditionalTracks opts)),
                 (PStr ''insertWithOffset'', PStr (insertWithOffset opts))]])] \<and>
   calls (snd (import_into_timeline H file_path ImportOptions_default s)) =
     calls s @
       [(t, ''ImportIntoTimeline'',
         [file_path,
          PDict [(PStr ''sourceClipsPath'', PStr ''''),
                 (PStr ''sourceClipsFolders'', PStr ''''),
                 (PStr ''autoImportSourceClipsIntoMediaPool'', PBool True),
                 (PStr ''ignoreFileExtensionsWhenMatching'', PBool False),
                 (PStr ''linkToSourceCameraFiles'', PBool False),
                 (PStr ''useSizingInfo'', PBool False),
                 (PStr ''importMultiChannelAudioTracksAsLinkedGroups'', PBool False),
                 (PStr ''insertAdditionalTracks'', PBool True),
                 (PStr ''insertWithOffset'', PStr ''00:00:00:00'')]])]"
  using assms
  by (simp add: import_into_timeline_def timeline_op_run asdict_def ImportOptions_default_def)

theorem import_options_forwarded_as_dict_witness:
  "calls (snd (import_into_timeline host_true (PStr ''cut.aaf'') ImportOptions_default a_timeline)) =
     [(PHandle 0, ''ImportIntoTimeline'',
       [PStr ''cut.aaf'',
        PDict [(PStr ''sourceClipsPath'', PStr ''''),
               (PStr ''sourceClipsFolders'', PStr ''''),
               (PStr ''autoImportSourceClipsIntoMediaPool'', PBool True),
               (PStr ''ignoreFileExtensionsWhenMatching'', PBool False),
               (PStr ''linkToSourceCameraFiles'', PBool False),
               (PStr ''useSizingInfo'', PBool False),
               (PStr ''importMultiChannelAudioTracksAsLinkedGroups'', PBool False),
               (PStr ''insertAdditionalTracks'', PBool True),
               (PStr ''insertWithOffset'', PStr ''00:00:00:00'')]])]"
  using import_options_forwarded_as_dict
          [of a_timeline "PHandle 0" host_true "PStr ''cut.aaf''" ImportOptions_default,
           THEN conjunct2]
  by (simp add: a_timeline_def)

text \<open>
  C7. The wrappers validate nothing: for every integer \<open>track_index\<close>, in the documented
  range or not, \<open>get_track_name\<close> and \<open>set_track_name\<close> hand the index to the host as it is
  and return the host's answer; and likewise every method of \<open>Timeline\<close> and \<open>MediaStorage\<close>,
  whatever the values of its arguments, makes its one call on the held handle with all of them:
  no argument value is checked, replaced or left out before it is forwarded.
\<close>

theorem no_validation_before_forwarding:
  assumes "attrs s ''timeline'' = Some t" and "attrs s2 ''media_storage'' = Some h"
  shows "get_track_name H tt (PInt i) s =
           (H (calls s) (t, ''GetTrackName'', [TrackType_value tt, PInt i]),
            s\<lparr>calls := calls s @ [(t, ''GetTrackName'', [TrackType_value tt, PInt i])]\<rparr>) \<and>
         set_track_name H tt (PInt i) name s =
           (H (calls s) (t, ''SetTrackName'', [TrackType_value tt, PInt i, name]),
            s\<lparr>calls := calls s @ [(t, ''SetTrackName'', [TrackType_value tt, PInt i, name])]\<rparr>) \<and>
         snd (Timeline_call H d m s) =
           s\<lparr>calls := calls s @ [(t, Timeline_operation m, Timeline_arguments d m)]\<rparr> \<and>
         snd (MediaStorage_call H d m2 s2) =
           s2\<lparr>calls := calls s2 @ [(h, MediaStorage_operation m2, MediaStorage_arguments d m2)]\<rparr>"
proof -
  have "get_track_name H tt (PInt i) s =
           (H (calls s) (t, ''GetTrackName'', [TrackType_value tt, PInt i]),
            s\<lparr>calls := calls s @ [(t, ''GetTrackName'', [TrackType_value tt, PInt i])]\<rparr>)"
    using assms(1) by (simp add: get_track_name_def timeline_op_run)
  moreover have "set_track_name H tt (PInt i) name s =
           (H (calls s) (t, ''SetTrackName'', [TrackType_value tt, PInt i, name]),
            s\<lparr>calls := calls s @ [(t, ''SetTrackName'', [TrackType_value tt, PInt i, name])]\<rparr>)"
    using assms(1) by (simp add: set_track_name_def timeline_op_run)
  moreover note Timeline_call_forwards [OF assms(1), of H d m]
    MediaStorage_call_forwards [OF assms(2), of H d m2]
  ultimately show ?thesis by simp
qed

theorem no_validation_before_forwarding_witness:
  "get_track_name host_counts VIDEO_TRACK (PInt (- 5)) a_timeline =
     (Inr (PInt 0),
      a_timeline\<lparr>calls := [(PHandle 0, ''GetTrackName'', [PStr ''video'', PInt (- 5)])]\<rparr>) \<and>
   set_track_name host_counts VIDEO_TRACK (PInt (- 5)) (PStr ''V'') a_timeline =
     (Inr (PInt 0),
      a_timeline\<lparr>calls := [(PHandle 0, ''SetTrackName'', [PStr ''video'', PInt (- 5), PStr ''V''])]\<rparr>) \<and>
   snd (Timeline_call host_counts str_other (Delete_marker_at_frame (PInt (- 3))) a_timeline) =
     a_timeline\<lparr>calls := [(PHandle 0, ''DeleteMarkerAtFrame'', [PInt (- 3)])]\<rparr> \<and>
   snd (MediaStorage_call host_counts str_other (Add_item_list_to_meida_pool (PList []))
          a_media_storage) =
     a_media_storage\<lparr>calls := [(PHandle 1, ''AddItemListToMediaPool'', [PList []])]\<rparr>"
  using no_validation_before_forwarding
          [where s = a_timeline and t = "PHandle 0" and ?s2.0 = a_media_storage
             and h = "PHandle 1" and H = host_counts and tt = VIDEO_TRACK and i = "- 5"
             and name = "PStr ''V''" and d = str_other
             and m = "Delete_marker_at_frame (PInt (- 3))"
             and ?m2.0 = "Add_item_list_to_meida_pool (PList [])"]
  by (simp add: a_timeline_def a_media_storage_def host_counts_def)

section \<open>What is returned\<close>

lemma get_item_list_in_track_wraps:
  assumes "attrs s ''timeline'' = Some t"
    and "H (calls s) (t, ''GetItemListInTrack'', [TrackType_value tt, i]) = Inr (PList xs)"
  shows "fst (get_item_list_in_track H tt i s) =
           Inr (PList (map (\<lambda>x. PTimelineItem (TimelineItem x)) xs))"
  using assms
  by (simp add: get_item_list_in_track_def timeline_op_run bindp_iterate items_loop_map)

lemma grab_still_wraps:
  assumes "attrs s ''timeline'' = Some t"
    and "H (calls s) (t, ''GrabStill'', []) = Inr v"
  shows "fst (grab_still H s) = Inr (PGalleryStill (GalleryStill v))"
  using assms by (simp add: grab_still_def timeline_op_run bindp_returnp)

lemma grab_all_stills_does_not_wrap:
  assumes "attrs s ''timeline'' = Some t"
    and "H (calls s) (t, ''GrabAllStills'', [src]) = Inr (PList xs)"
  shows "fst (grab_all_stills H src s) = Inr (PList xs)"
  using assms by (simp add: grab_all_stills_def timeline_op_run bindp_iterate stills_loop_id)

text \<open>
  C1. A returned handle or list of handles is wrapped in the wrapper type: \<open>grab_all_stills\<close>
  returns one \<open>GalleryStill\<close> per handle of \<open>GrabAllStills\<close>, and \<open>get_item_list_in_track\<close>
  one \<open>TimelineItem\<close> per handle of \<open>GetItemListInTrack\<close>, in order. Evaluated on a host
  that answers with the two handles 7 and 8: \<open>get_item_list_in_track\<close> wraps them,
  \<open>grab_all_stills\<close> returns them bare.
\<close>

theorem grab_all_stills_returns_bare_handles:
  "fst (grab_all_stills host_two (PInt 1) a_timeline) = Inr (PList [PHandle 7, PHandle 8]) \<and>
   fst (grab_all_stills host_two (PInt 1) a_timeline) \<noteq>
     Inr (PList [PGalleryStill (GalleryStill (PHandle 7)), PGalleryStill (GalleryStill (PHandle 8))]) \<and>
   fst (get_item_list_in_track host_two VIDEO_TRACK (PInt 1) a_timeline) =
     Inr (PList [PTimelineItem (TimelineItem (PHandle 7)), PTimelineItem (TimelineItem (PHandle 8))])"
  by (simp add: grab_all_stills_def get_item_list_in_track_def timeline_op_run bindp_iterate
      a_timeline_def host_two_def)

section \<open>What is forwarded\<close>

lemma create_compound_clip_forwards_handles:
  assumes "attrs s ''timeline'' = Some t"
  shows "calls (snd (create_compound_clip H tis clipinfo s)) =
           calls s @ [(t, ''CreateCompoundClip'', [PList (map timeline_item tis), clipinfo])]"
  using assms
  by (simp add: create_compound_clip_def timeline_op_run bindp_returnp transfer_map
      split: sum.splits)

lemma apply_grade_from_drx_forwards_wrappers:
  assumes "attrs s ''timeline'' = Some t"
  shows "calls (snd (apply_grade_from_drx H d p g tis s)) =
           calls s @ [(t, ''ApplyGradeFromDRX'', [PStr (py_str d p), g, PList (map PTimelineItem tis)])]"
  using assms by (simp add: apply_grade_from_drx_def timeline_op_run)

text \<open>
  C2. A wrapper passed as an argument reaches the host as the handle it holds, not as the
  wrapper. Evaluated on a \<open>TimelineItem\<close> holding the handle 5 and a \<open>MediaPoolItem\<close> holding
  the handle 6: \<open>create_compound_clip\<close> hands over the handle, \<open>apply_grade_from_drx\<close> and
  \<open>add_clip_mattes_to_media_pool\<close> hand over the wrapper objects.
\<close>

theorem wrapper_objects_reach_the_host:
  "calls (snd (apply_grade_from_drx host_true str_other (PStr ''grade.drx'') (PInt 0)
                 [TimelineItem (PHandle 5)] a_timeline)) =
     [(PHandle 0, ''ApplyGradeFromDRX'',
        [PStr ''grade.drx'', PInt 0, PList [PTimelineItem (TimelineItem (PHandle 5))]])] \<and>
   calls (snd (add_clip_mattes_to_media_pool host_true (MediaPoolItem (PHandle 6))
                 (PList [PStr ''matte.exr'']) None a_media_storage)) =
     [(PHandle 1, ''AddClipMattesToMediaPool'',
        [PMediaPoolItem (MediaPoolItem (PHandle 6)), PList [PStr ''matte.exr''], PNone])] \<and>
   calls (snd (create_compound_clip host_true [TimelineItem (PHandle 5)] (PDict []) a_timeline)) =
     [(PHandle 0, ''CreateCompoundClip'', [PList [PHandle 5], PDict []])]"
  by (simp add: apply_grade_from_drx_def add_clip_mattes_to_media_pool_def
      create_compound_clip_def timeline_op_run media_storage_op_run bindp_returnp transfer_map
      default_arg_def a_timeline_def a_media_storage_def host_true_def)

lemma path_arguments_coerced:
  assumes "attrs s ''timeline'' = Some t" and "attrs s2 ''media_storage'' = Some h"
  shows "calls (snd (get_file_list H d p s2)) = calls s2 @ [(h, ''GetFileList'', [PStr (py_str d p)])]"
    and "calls (snd (get_sub_folder_list H d p s2)) =
           calls s2 @ [(h, ''GetSubFolderList'', [PStr (py_str d p)])]"
    and "calls (snd (reveal_in_storage H d p s2)) =
           calls s2 @ [(h, ''RevealInStorage'', [PStr (py_str d p)])]"
    and "\<exists>rest. calls (snd (apply_grade_from_drx H d p g tis s)) =
           calls s @ [(t, ''ApplyGradeFromDRX'', PStr (py_str d p) # rest)]"
  using assms
  by (simp_all add: get_file_list_def get_sub_folder_list_def reveal_in_storage_def
      apply_grade_from_drx_def timeline_op_run media_storage_op_run)

lemma path_arguments_not_coerced:
  assumes "attrs s ''timeline'' = Some t"
  shows "calls (snd (export_timeline H file_name ty sub s)) =
           calls s @ [(t, ''Export'', [file_name, ty, default_arg PNone sub])]"
    and "calls (snd (import_into_timeline H file_path opts s)) =
           calls s @ [(t, ''ImportIntoTimeline'', [file_path, asdict opts])]"
  using assms by (simp_all add: export_timeline_def import_into_timeline_def timeline_op_run)

text \<open>
  C3. A path-like argument reaches the host as its string form. Evaluated on \<open>pathlib\<close>
  paths: \<open>get_file_list\<close> hands over the string \<open>/media\<close>, \<open>export\<close> and
  \<open>import_into_timeline\<close> hand over the path objects.
\<close>

theorem export_forwards_the_path_object:
  "calls (snd (export_timeline host_true (PPath ''out.drt'') (PStr ''drt'') None a_timeline)) =
     [(PHandle 0, ''Export'', [PPath ''out.drt'', PStr ''drt'', PNone])] \<and>
   calls (snd (export_timeline host_true (PPath ''out.drt'') (PStr ''drt'') None a_timeline)) \<noteq>
     [(PHandle 0, ''Export'', [PStr (py_str str_other (PPath ''out.drt'')), PStr ''drt'', PNone])] \<and>
   calls (snd (import_into_timeline host_true (PPath ''cut.aaf'') ImportOptions_default a_timeline)) =
     [(PHandle 0, ''ImportIntoTimeline'', [PPath ''cut.aaf'', asdict ImportOptions_default])] \<and>
   calls (snd (get_file_list host_true str_other (PPath ''/media'') a_media_storage)) =
     [(PHandle 1, ''GetFileList'', [PStr ''/media''])]"
  by (simp add: export_timeline_def import_into_timeline_def get_file_list_def timeline_op_run
      media_storage_op_run default_arg_def a_timeline_def a_media_storage_def host_true_def)

section \<open>Exceptions, state and the number of calls\<close>

text \<open>
  C4 as stated: a method raises exactly when its delegated call raises. On a host that answers
  \<open>GetItemListInTrack\<close> with \<open>None\<close> the delegated call returns, and the \<open>for\<close> statement
  of \<open>get_item_list_in_track\<close> raises a \<open>TypeError\<close> of its own.
\<close>

theorem wrapper_raises_though_host_returned:
  "answer host_none a_timeline
     (snd (Timeline_call host_none str_other (Get_item_list_in_track VIDEO_TRACK (PInt 1))
             a_timeline)) = Inr PNone \<and>
   fst (Timeline_call host_none str_other (Get_item_list_in_track VIDEO_TRACK (PInt 1))
          a_timeline) = Inl TypeError"
  by (simp add: get_item_list_in_track_def timeline_op_run bindp_iterate answer_def
      a_timeline_def host_none_def)

text \<open>
  C4, amended. An exception raised by the delegated call of a \<open>Timeline\<close> or \<open>MediaStorage\<close>
  method leaves the method unchanged; nothing is caught. When the delegated call returns, the
  method returns too, except that a method which loops over the answer raises \<open>TypeError\<close>
  when the answer cannot be iterated.
\<close>

theorem host_exceptions_propagate_unchanged:
  assumes "attrs s ''timeline'' = Some t" and "attrs s2 ''media_storage'' = Some h"
  shows "(case answer H s (snd (Timeline_call H d m s)) of
            Inl e \<Rightarrow> fst (Timeline_call H d m s) = Inl e
          | Inr v \<Rightarrow>
              if Timeline_iterates m \<and> py_iter v = None
              then fst (Timeline_call H d m s) = Inl TypeError
              else \<exists>r. fst (Timeline_call H d m s) = Inr r) \<and>
         (case answer H s2 (snd (MediaStorage_call H d m2 s2)) of
            Inl e \<Rightarrow> fst (MediaStorage_call H d m2 s2) = Inl e
          | Inr v \<Rightarrow>
              if MediaStorage_iterates m2 \<and> py_iter v = None
              then fst (MediaStorage_call H d m2 s2) = Inl TypeError
              else \<exists>r. fst (MediaStorage_call H d m2 s2) = Inr r)"
  using Timeline_call_run(4) [OF assms(1), of H d m]
    MediaStorage_call_run(4) [OF assms(2), of H d m2]
  by simp

theorem host_exceptions_propagate_unchanged_witness:
  "fst (Timeline_call host_raises str_other
          (Add_marker (PInt 96) (PStr ''Green'') (PStr ''Marker 1'') (PStr '''') (PInt 1) (PStr ''''))
          a_timeline) = Inl (HostError ''no project'') \<and>
   fst (MediaStorage_call host_raises str_other Get_mounted_volume_list a_media_storage) =
     Inl (HostError ''no project'')"
  using host_exceptions_propagate_unchanged
          [where s = a_timeline and t = "PHandle 0" and ?s2.0 = a_media_storage
             and h = "PHandle 1" and H = host_raises and d = str_other
             and m = "Add_marker (PInt 96) (PStr ''Green'') (PStr ''Marker 1'') (PStr '''')
                        (PInt 1) (PStr '''')"
             and ?m2.0 = Get_mounted_volume_list]
  by (simp add: a_timeline_def a_media_storage_def host_raises_def answer_def)

text \<open>
  C5. A wrapper's only state is the one handle stored at construction: \<open>__init__\<close> leaves
  exactly that attribute in a fresh instance, and no method of \<open>Timeline\<close> or \<open>MediaStorage\<close>
  changes an attribute or adds one.
\<close>

theorem handle_is_the_only_state:
  "attrs (snd (Timeline_init t fresh)) = [''timeline'' \<mapsto> t] \<and>
   attrs (snd (MediaStorage_init H ld fresh)) =
     (case H [] (ld, ''GetMediaStorage'', []) of
        Inl e \<Rightarrow> Map.empty
      | Inr v \<Rightarrow> [''media_storage'' \<mapsto> v]) \<and>
   attrs (snd (Timeline_call H d m s)) = attrs s \<and>
   attrs (snd (MediaStorage_call H d m2 s2)) = attrs s2"
  by (simp add: Timeline_call_attrs MediaStorage_call_attrs Timeline_init_def
      MediaStorage_init_def bindp_def invoke_def fresh_def split: sum.splits)

theorem handle_is_the_only_state_witness:
  "attrs (snd (Timeline_init (PHandle 0) fresh)) = attrs a_timeline \<and>
   attrs (snd (Timeline_call host_true str_other (Set_name (PStr ''Edit 2''))
                 (snd (Timeline_init (PHandle 0) fresh)))) = attrs a_timeline \<and>
   attrs (snd (MediaStorage_call host_true str_other (Reveal_in_storage (PStr ''/media''))
                 a_media_storage)) = attrs a_media_storage"
  using handle_is_the_only_state
          [where t = "PHandle 0" and H = host_true and d = str_other
             and m = "Set_name (PStr ''Edit 2'')" and s = "snd (Timeline_init (PHandle 0) fresh)"
             and ?m2.0 = "Reveal_in_storage (PStr ''/media'')" and ?s2.0 = a_media_storage]
  by (simp add: a_timeline_def)

text \<open>
  C6. One invocation of a method of \<open>Timeline\<close> or \<open>MediaStorage\<close> makes exactly one call,
  on the held handle and of the operation the method stands for; a second invocation makes a
  second call, whose answer the host gives knowing of the first, so nothing is retried and
  nothing is remembered.
\<close>

theorem one_delegated_call_per_invocation:
  assumes "attrs s ''timeline'' = Some t" and "attrs s2 ''media_storage'' = Some h"
  shows "(\<exists>args. calls (snd (Timeline_call H d m s)) = calls s @ [(t, Timeline_operation m, args)]) \<and>
         (\<exists>args args'.
            calls (snd (Timeline_call H d m (snd (Timeline_call H d m s)))) =
              calls s @ [(t, Timeline_operation m, args), (t, Timeline_operation m, args')] \<and>
            answer H (snd (Timeline_call H d m s))
                (snd (Timeline_call H d m (snd (Timeline_call H d m s)))) =
              H (calls s @ [(t, Timeline_operation m, args)]) (t, Timeline_operation m, args')) \<and>
         (\<exists>args. calls (snd (MediaStorage_call H d m2 s2)) =
            calls s2 @ [(h, MediaStorage_operation m2, args)]) \<and>
         (\<exists>args args'.
            calls (snd (MediaStorage_call H d m2 (snd (MediaStorage_call H d m2 s2)))) =
              calls s2 @ [(h, MediaStorage_operation m2, args), (h, MediaStorage_operation m2, args')] \<and>
            answer H (snd (MediaStorage_call H d m2 s2))
                (snd (MediaStorage_call H d m2 (snd (MediaStorage_call H d m2 s2)))) =
              H (calls s2 @ [(h, MediaStorage_operation m2, args)])
                (h, MediaStorage_operation m2, args'))"
proof -
  have one: "\<exists>args. calls (snd (Timeline_call H d m u)) = calls u @ [(t, Timeline_operation m, args)]"
    if "attrs u ''timeline'' = Some t" for u
  proof -
    obtain r n a where c: "last (calls (snd (Timeline_call H d m u))) = (r, n, a)"
      by (cases "last (calls (snd (Timeline_call H d m u)))") auto
    with Timeline_call_run(1,2) [OF that, of H d m] Timeline_call_operation [OF that, of H d m]
    show ?thesis by auto
  qed
  have one2: "\<exists>args. calls (snd (MediaStorage_call H d m2 u)) =
                 calls u @ [(h, MediaStorage_operation m2, args)]"
    if "attrs u ''media_storage'' = Some h" for u
  proof -
    obtain r n a where c: "last (calls (snd (MediaStorage_call H d m2 u))) = (r, n, a)"
      by (cases "last (calls (snd (MediaStorage_call H d m2 u)))") auto
    with MediaStorage_call_run(1,2) [OF that, of H d m2]
      MediaStorage_call_operation [OF that, of H d m2]
    show ?thesis by auto
  qed
  let ?u = "snd (Timeline_call H d m s)"
  let ?u2 = "snd (MediaStorage_call H d m2 s2)"
  have a: "attrs ?u ''timeline'' = Some t"
    using assms(1) by (simp add: Timeline_call_attrs)
  have a2: "attrs ?u2 ''media_storage'' = Some h"
    using assms(2) by (simp add: MediaStorage_call_attrs)
  obtain x where x: "calls ?u = calls s @ [(t, Timeline_operation m, x)]"
    using one [OF assms(1)] by blast
  obtain y where y: "calls (snd (Timeline_call H d m ?u)) = calls ?u @ [(t, Timeline_operation m, y)]"
    using one [OF a] by blast
  obtain x2 where x2: "calls ?u2 = calls s2 @ [(h, MediaStorage_operation m2, x2)]"
    using one2 [OF assms(2)] by blast
  obtain y2 where y2: "calls (snd (MediaStorage_call H d m2 ?u2)) =
      calls ?u2 @ [(h, MediaStorage_operation m2, y2)]"
    using one2 [OF a2] by blast
  show ?thesis
    using x y x2 y2 by (simp add: answer_def)
qed

theorem one_delegated_call_per_invocation_witness:
  "Timeline_call host_counts str_other Get_markers a_timeline =
     (Inr (PInt 0), a_timeline\<lparr>calls := [(PHandle 0, ''GetMarkers'', [])]\<rparr>) \<and>
   Timeline_call host_counts str_other Get_markers
       (snd (Timeline_call host_counts str_other Get_markers a_timeline)) =
     (Inr (PInt 1),
      a_timeline\<lparr>calls := [(PHandle 0, ''GetMarkers'', []), (PHandle 0, ''GetMarkers'', [])]\<rparr>) \<and>
   calls (snd (MediaStorage_call host_counts str_other (Get_sub_folder_list (PPath ''/media''))
                 a_media_storage)) =
     [(PHandle 1, ''GetSubFolderList'', [PStr ''/media''])]"
  using one_delegated_call_per_invocation
          [where s = a_timeline and t = "PHandle 0" and ?s2.0 = a_media_storage
             and h = "PHandle 1" and H = host_counts and d = str_other and m = Get_markers
             and ?m2.0 = "Get_sub_folder_list (PPath ''/media'')"]
  by (simp add: a_timeline_def a_media_storage_def host_counts_def get_markers_def
      get_sub_folder_list_def timeline_op_run media_storage_op_run)

end
